theory Spec2Isabelle
  imports Main
begin

section \<open>Byte strings\<close>

text \<open>
  The prototype is Python 2 and works on byte strings throughout (\<^verbatim>\<open>b"..."\<close>
  literals), so a string is a list of bytes.
\<close>

type_synonym bytes = string

text \<open>
  \<^verbatim>\<open>s.split(sep)\<close> with a one-byte separator, the only way the source calls it
  (\<^verbatim>\<open>b"."\<close> and \<^verbatim>\<open>b"/"\<close>): the string is cut at every occurrence of the
  separator, empty pieces are kept, and a string without the separator (the empty
  string too) gives the one-element list holding it.
\<close>

fun split_bytes :: "char \<Rightarrow> bytes \<Rightarrow> bytes list" where
  "split_bytes sep [] = [[]]"
| "split_bytes sep (x # xs) =
     (if x = sep then [] # split_bytes sep xs
      else (case split_bytes sep xs of
              [] \<Rightarrow> [[x]]
            | t # ts \<Rightarrow> (x # t) # ts))"

text \<open>\<^verbatim>\<open>sep.join(parts)\<close>.\<close>

fun join_bytes :: "bytes \<Rightarrow> bytes list \<Rightarrow> bytes" where
  "join_bytes sep [] = []"
| "join_bytes sep [p] = p"
| "join_bytes sep (p # q # ps) = p @ sep @ join_bytes sep (q # ps)"

section \<open>Errors\<close>

text \<open>
  The exceptions the modelled code can raise. \<open>TypeError\<close> is what the namedtuple
  constructor raises when it is not given exactly three fields, \<open>ValueError\<close> is
  raised by \<^verbatim>\<open>branchOffBranch\<close>, \<open>CalledProcessError\<close> (exit status and command) by
  \<^verbatim>\<open>subprocess.check_call\<close>, and \<open>OSError\<close> by listing a directory that cannot
  be read.
\<close>

datatype error =
    TypeError
  | ValueError
  | CalledProcessError int "bytes list"
  | OSError

section \<open>FlockerBranch\<close>

text \<open>\<^verbatim>\<open>namedtuple("FlockerBranch", "flockerName volume branch")\<close>.\<close>

record FlockerBranch =
  flockerName :: bytes
  volume :: bytes
  branch :: bytes

text \<open>
  \<^verbatim>\<open>cls(*parts)\<close>: the constructor applied to an unpacked list. It takes exactly
  three positional arguments and raises \<open>TypeError\<close> for any other number; it
  does not look at the fields.
\<close>

fun FlockerBranch_new :: "bytes list \<Rightarrow> error + FlockerBranch" where
  "FlockerBranch_new [a, b, c] = Inr \<lparr>flockerName = a, volume = b, branch = c\<rparr>"
| "FlockerBranch_new parts = Inl TypeError"

definition datasetName :: "FlockerBranch \<Rightarrow> bytes \<Rightarrow> bytes" where
  "datasetName self poolName =
     poolName @ ''/'' @ join_bytes ''.'' [flockerName self, volume self, branch self]"

definition fromDatasetName :: "bytes \<Rightarrow> error + FlockerBranch" where
  "fromDatasetName dsName = FlockerBranch_new (split_bytes (CHR ''.'') dsName)"

definition fromBranchName :: "bytes \<Rightarrow> bytes \<Rightarrow> error + FlockerBranch" where
  "fromBranchName branchName thisFlockerName =
     (let parts = split_bytes (CHR ''/'') branchName;
          parts = (if length parts = 2 then thisFlockerName # parts else parts)
      in FlockerBranch_new parts)"

section \<open>The outside world: the storage engine and the mounted tree\<close>

text \<open>
  The code reaches the outside in two ways: it runs \<^verbatim>\<open>zfs\<close> commands and it lists
  the directory the pool is mounted at. The world records every command run, in
  order (\<open>trace\<close>); the exit status of a command is decided by \<open>engine\<close> from the
  commands run before it and the command itself; \<open>fs\<close> gives the entries of each
  directory that can be listed.
\<close>

type_synonym command = "bytes list"

record world =
  trace :: "command list"
  engine :: "command list \<Rightarrow> command \<Rightarrow> int"
  fs :: "bytes \<rightharpoonup> bytes list"

text \<open>
  \<^verbatim>\<open>subprocess.check_call(["zfs"] + list(arguments))\<close>: the command is run, and a
  non-zero exit status raises \<open>CalledProcessError\<close>.
\<close>

definition zfs :: "bytes list \<Rightarrow> world \<Rightarrow> (error + unit) \<times> world" where
  "zfs arguments w =
     (let cmd = ''zfs'' # arguments;
          rc = engine w (trace w) cmd;
          w' = w\<lparr>trace := trace w @ [cmd]\<rparr>
      in if rc = 0 then (Inr (), w') else (Inl (CalledProcessError rc cmd), w'))"

section \<open>Flocker\<close>

text \<open>
  The volume manager's fields. \<open>self_flockerName\<close> is the attribute
  \<^verbatim>\<open>self.flockerName\<close> (the field name \<open>flockerName\<close> belongs to the branch tuple).
\<close>

record Flocker =
  poolName :: bytes
  mountRoot :: bytes
  self_flockerName :: bytes

text \<open>
  \<^verbatim>\<open>__init__\<close>. The mount root is computed by Twisted's
  \<^verbatim>\<open>FilePath(b"/").child(poolName)\<close>, library code outside the repository; its
  result is the parameter \<open>root\<close>. The pool name is reused as the instance's name.
\<close>

definition Flocker_init :: "bytes \<Rightarrow> bytes \<Rightarrow> Flocker" where
  "Flocker_init pool root = \<lparr>poolName = pool, mountRoot = root, self_flockerName = pool\<rparr>"

definition createVolume :: "Flocker \<Rightarrow> bytes \<Rightarrow> world \<Rightarrow> (error + unit) \<times> world" where
  "createVolume self volumeName w =
     (let trunk = datasetName
            \<lparr>flockerName = self_flockerName self, volume = volumeName, branch = ''trunk''\<rparr>
            (poolName self)
      in zfs [''create'', trunk] w)"

text \<open>
  What the body of the loop of \<^verbatim>\<open>listVolumes\<close> appends for a decoded entry:
  \<^verbatim>\<open>b"%s/%s" % (branch.volume, branch.branch)\<close> when the entry's owner is this
  instance, \<^verbatim>\<open>b"/".join(branch)\<close> otherwise.
\<close>

definition listVolumes_entry :: "bytes \<Rightarrow> FlockerBranch \<Rightarrow> bytes" where
  "listVolumes_entry me b =
     (if flockerName b = me then volume b @ ''/'' @ branch b
      else join_bytes ''/'' [flockerName b, volume b, branch b])"

text \<open>
  The loop of \<^verbatim>\<open>listVolumes\<close> over the directory entries, \<open>result\<close> being the
  list built so far. An exception of \<^verbatim>\<open>fromDatasetName\<close> leaves the loop and the
  function.
\<close>

fun listVolumes_loop :: "bytes \<Rightarrow> bytes list \<Rightarrow> bytes list \<Rightarrow> error + bytes list" where
  "listVolumes_loop me [] result = Inr result"
| "listVolumes_loop me (branchName # rest) result =
     (if CHR ''.'' \<notin> set branchName then listVolumes_loop me rest result
      else (case fromDatasetName branchName of
              Inl e \<Rightarrow> Inl e
            | Inr b \<Rightarrow> listVolumes_loop me rest (result @ [listVolumes_entry me b])))"

definition listVolumes :: "Flocker \<Rightarrow> world \<Rightarrow> error + bytes list" where
  "listVolumes self w =
     (case fs w (mountRoot self) of
        None \<Rightarrow> Inl OSError
      | Some entries \<Rightarrow> listVolumes_loop (self_flockerName self) entries [])"

definition branchOffBranch ::
  "Flocker \<Rightarrow> FlockerBranch \<Rightarrow> FlockerBranch \<Rightarrow> world \<Rightarrow> (error + unit) \<times> world" where
  "branchOffBranch self newBranch fromBranch w =
     (if volume newBranch \<noteq> volume fromBranch then (Inl ValueError, w)
      else
        let snapshotName = datasetName fromBranch (poolName self) @ ''@'' @ branch newBranch
        in (case zfs [''snapshot'', snapshotName] w of
              (Inl e, w1) \<Rightarrow> (Inl e, w1)
            | (Inr u, w1) \<Rightarrow> zfs [''clone'', snapshotName, datasetName newBranch (poolName self)] w1))"

section \<open>Splitting and joining\<close>

lemma split_bytes_nonempty: "split_bytes sep s \<noteq> []"
  by (induction s) (auto split: list.splits)

lemma split_bytes_no_sep: "sep \<notin> set s \<Longrightarrow> split_bytes sep s = [s]"
  by (induction s) auto

lemma split_bytes_at_sep:
  "sep \<notin> set a \<Longrightarrow> split_bytes sep (a @ sep # r) = a # split_bytes sep r"
  by (induction a) auto

lemma split_bytes_length: "length (split_bytes sep s) = Suc (count_list s sep)"
  by (induction s) (auto split: list.splits simp: split_bytes_nonempty)

lemma FlockerBranch_new_ok_iff:
  "(\<exists>b. FlockerBranch_new parts = Inr b) \<longleftrightarrow> length parts = 3"
  by (induction parts rule: FlockerBranch_new.induct) auto

lemma FlockerBranch_new_fail:
  "length parts \<noteq> 3 \<Longrightarrow> FlockerBranch_new parts = Inl TypeError"
  by (induction parts rule: FlockerBranch_new.induct) auto

lemma split_bytes_two:
  assumes "sep \<notin> set a" "sep \<notin> set b"
  shows "split_bytes sep (a @ sep # b) = [a, b]"
  using assms by (simp add: split_bytes_at_sep split_bytes_no_sep)

lemma split_bytes_three:
  assumes "sep \<notin> set a" "sep \<notin> set b" "sep \<notin> set c"
  shows "split_bytes sep (a @ sep # b @ sep # c) = [a, b, c]"
proof -
  have "split_bytes sep (a @ sep # (b @ sep # c)) = a # split_bytes sep (b @ sep # c)"
    using assms(1) by (rule split_bytes_at_sep)
  also have "split_bytes sep (b @ sep # c) = b # split_bytes sep c"
    using assms(2) by (rule split_bytes_at_sep)
  also have "split_bytes sep c = [c]"
    using assms(3) by (rule split_bytes_no_sep)
  finally show ?thesis .
qed

section \<open>Decoding dataset names\<close>

text \<open>
  On the name of a mounted dataset's directory, which carries no pool prefix, decoding
  undoes the dot-joining of \<^verbatim>\<open>datasetName\<close> as long as no field contains a dot.
\<close>

lemma fromDatasetName_relative_name:
  assumes "CHR ''.'' \<notin> set (flockerName b)"
      and "CHR ''.'' \<notin> set (volume b)"
      and "CHR ''.'' \<notin> set (branch b)"
  shows "fromDatasetName (join_bytes ''.'' [flockerName b, volume b, branch b]) = Inr b"
  using assms by (simp add: fromDatasetName_def split_bytes_three del: split_bytes.simps)

text \<open>
  On the full dataset name built by \<^verbatim>\<open>datasetName\<close> the pool and the slash stay in
  the first field: nothing in \<^verbatim>\<open>fromDatasetName\<close> removes them.
\<close>

lemma fromDatasetName_datasetName:
  assumes "CHR ''.'' \<notin> set pool"
      and "CHR ''.'' \<notin> set (flockerName b)"
      and "CHR ''.'' \<notin> set (volume b)"
      and "CHR ''.'' \<notin> set (branch b)"
  shows "fromDatasetName (datasetName b pool)
           = Inr (b\<lparr>flockerName := pool @ ''/'' @ flockerName b\<rparr>)"
proof -
  have d: "datasetName b pool
             = (pool @ ''/'' @ flockerName b) @ CHR ''.'' # volume b @ CHR ''.'' # branch b"
    by (simp add: datasetName_def)
  have "CHR ''.'' \<notin> set (pool @ ''/'' @ flockerName b)"
    using assms(1,2) by simp
  then have "split_bytes (CHR ''.'') (datasetName b pool)
               = [pool @ ''/'' @ flockerName b, volume b, branch b]"
    unfolding d using assms(3,4) by (rule split_bytes_three)
  then show ?thesis
    by (simp add: fromDatasetName_def)
qed

text \<open>
  C1. The claim: decoding the flat name that \<^verbatim>\<open>datasetName\<close> builds for an identifier
  and a pool gives the identifier back. The code does not: for the identifier
  (pool1, db, trunk) and the pool pool1 the flat name is pool1/pool1.db.trunk, and
  decoding it gives the owner pool1/pool1, not pool1.
\<close>

theorem fromDatasetName_datasetName_pool1:
  "datasetName \<lparr>flockerName = ''pool1'', volume = ''db'', branch = ''trunk''\<rparr> ''pool1''
     = ''pool1/pool1.db.trunk''
   \<and> fromDatasetName ''pool1/pool1.db.trunk''
     = Inr \<lparr>flockerName = ''pool1/pool1'', volume = ''db'', branch = ''trunk''\<rparr>
   \<and> fromDatasetName
       (datasetName \<lparr>flockerName = ''pool1'', volume = ''db'', branch = ''trunk''\<rparr> ''pool1'')
     \<noteq> Inr \<lparr>flockerName = ''pool1'', volume = ''db'', branch = ''trunk''\<rparr>"
  by (simp add: fromDatasetName_def datasetName_def)

text \<open>
  C2, as stated: decoding succeeds only when the three tokens are non-empty. The code
  accepts an empty token: a..b splits into a, the empty string and b, and decodes to
  an identifier whose volume is empty.
\<close>

theorem fromDatasetName_empty_token:
  "split_bytes (CHR ''.'') ''a..b'' = [''a'', [], ''b'']
   \<and> fromDatasetName ''a..b'' = Inr \<lparr>flockerName = ''a'', volume = [], branch = ''b''\<rparr>"
  by (simp add: fromDatasetName_def)

text \<open>
  C2, amended: for every input without a slash (a dataset's name relative to the pool,
  as the directory listing gives it), decoding succeeds if and only if splitting the
  input on the dot gives exactly three tokens, empty or not, and then returns them as
  owner, volume and branch; with fewer or more than three tokens it fails with the
  constructor's \<open>TypeError\<close>.
\<close>

theorem fromDatasetName_three_tokens:
  assumes "CHR ''/'' \<notin> set s"
  shows "((\<exists>b. fromDatasetName s = Inr b) \<longleftrightarrow> length (split_bytes (CHR ''.'') s) = 3)
       \<and> (length (split_bytes (CHR ''.'') s) \<noteq> 3 \<longrightarrow> fromDatasetName s = Inl TypeError)
       \<and> (\<forall>t1 t2 t3. split_bytes (CHR ''.'') s = [t1, t2, t3] \<longrightarrow>
            fromDatasetName s = Inr \<lparr>flockerName = t1, volume = t2, branch = t3\<rparr>)"
  by (simp add: fromDatasetName_def FlockerBranch_new_ok_iff FlockerBranch_new_fail)

theorem fromDatasetName_three_tokens_witness:
  "CHR ''/'' \<notin> set ''pool1.db.trunk''
   \<and> fromDatasetName ''pool1.db.trunk''
       = Inr \<lparr>flockerName = ''pool1'', volume = ''db'', branch = ''trunk''\<rparr>
   \<and> CHR ''/'' \<notin> set ''a.b'' \<and> fromDatasetName ''a.b'' = Inl TypeError
   \<and> CHR ''/'' \<notin> set ''a.b.c.d'' \<and> fromDatasetName ''a.b.c.d'' = Inl TypeError"
  using fromDatasetName_three_tokens [of "''pool1.db.trunk''"]
        fromDatasetName_three_tokens [of "''a.b''"]
        fromDatasetName_three_tokens [of "''a.b.c.d''"]
  by simp

section \<open>Reference strings\<close>

text \<open>
  C7. A reference that splits on the slash into exactly two tokens gives the identifier
  with the default owner in front; one that splits into exactly three tokens gives the
  three tokens, the default owner being ignored; any other number of tokens makes the
  constructor fail (\<open>TypeError\<close>, the specification's InvalidReference).
\<close>

theorem fromBranchName_token_count:
  "(split_bytes (CHR ''/'') r = [t1, t2] \<longrightarrow>
      fromBranchName r d = Inr \<lparr>flockerName = d, volume = t1, branch = t2\<rparr>)
   \<and> (split_bytes (CHR ''/'') r = [t1, t2, t3] \<longrightarrow>
      fromBranchName r d = Inr \<lparr>flockerName = t1, volume = t2, branch = t3\<rparr>)
   \<and> (length (split_bytes (CHR ''/'') r) \<noteq> 2 \<and> length (split_bytes (CHR ''/'') r) \<noteq> 3 \<longrightarrow>
      fromBranchName r d = Inl TypeError)"
  by (simp add: fromBranchName_def Let_def FlockerBranch_new_fail)

theorem fromBranchName_token_count_witness:
  "split_bytes (CHR ''/'') ''db/trunk'' = [''db'', ''trunk'']
   \<and> fromBranchName ''db/trunk'' ''pool1''
       = Inr \<lparr>flockerName = ''pool1'', volume = ''db'', branch = ''trunk''\<rparr>
   \<and> split_bytes (CHR ''/'') ''pool2/shared/trunk'' = [''pool2'', ''shared'', ''trunk'']
   \<and> fromBranchName ''pool2/shared/trunk'' ''pool1''
       = Inr \<lparr>flockerName = ''pool2'', volume = ''shared'', branch = ''trunk''\<rparr>
   \<and> length (split_bytes (CHR ''/'') ''db'') = 1
   \<and> fromBranchName ''db'' ''pool1'' = Inl TypeError
   \<and> length (split_bytes (CHR ''/'') ''a/b/c/d'') = 4
   \<and> fromBranchName ''a/b/c/d'' ''pool1'' = Inl TypeError"
  using fromBranchName_token_count [of "''db/trunk''" "''db''" "''trunk''" "''pool1''"]
        fromBranchName_token_count
          [of "''pool2/shared/trunk''" "''pool2''" "''shared''" "''pool1''" "''trunk''"]
        fromBranchName_token_count [of "''db''" _ _ "''pool1''"]
        fromBranchName_token_count [of "''a/b/c/d''" _ _ "''pool1''"]
  by simp

text \<open>
  C8. For an identifier whose fields contain no slash: when its owner is the local
  owner, the display string is the short form volume/branch, and parsing it with the
  local owner as default gives the identifier back; when its owner is another one, the
  display string is the long form owner/volume/branch, and parsing it gives the
  identifier back whatever default owner is supplied.
\<close>

theorem reference_roundtrip:
  assumes "CHR ''/'' \<notin> set (flockerName b)"
      and "CHR ''/'' \<notin> set (volume b)"
      and "CHR ''/'' \<notin> set (branch b)"
  shows "(flockerName b = localOwner \<longrightarrow>
            listVolumes_entry localOwner b = volume b @ ''/'' @ branch b
            \<and> fromBranchName (listVolumes_entry localOwner b) localOwner = Inr b)
       \<and> (flockerName b \<noteq> localOwner \<longrightarrow>
            listVolumes_entry localOwner b = flockerName b @ ''/'' @ volume b @ ''/'' @ branch b
            \<and> (\<forall>defaultOwner. fromBranchName (listVolumes_entry localOwner b) defaultOwner = Inr b))"
  using assms
  by (simp add: listVolumes_entry_def fromBranchName_def Let_def split_bytes_two split_bytes_three
           del: split_bytes.simps)

theorem reference_roundtrip_witness:
  "listVolumes_entry ''pool1'' \<lparr>flockerName = ''pool1'', volume = ''db'', branch = ''trunk''\<rparr>
     = ''db/trunk''
   \<and> fromBranchName ''db/trunk'' ''pool1''
     = Inr \<lparr>flockerName = ''pool1'', volume = ''db'', branch = ''trunk''\<rparr>
   \<and> listVolumes_entry ''pool1'' \<lparr>flockerName = ''pool2'', volume = ''shared'', branch = ''trunk''\<rparr>
     = ''pool2/shared/trunk''
   \<and> (\<forall>defaultOwner. fromBranchName ''pool2/shared/trunk'' defaultOwner
     = Inr \<lparr>flockerName = ''pool2'', volume = ''shared'', branch = ''trunk''\<rparr>)"
  using reference_roundtrip
          [of "\<lparr>flockerName = ''pool1'', volume = ''db'', branch = ''trunk''\<rparr>" "''pool1''"]
        reference_roundtrip
          [of "\<lparr>flockerName = ''pool2'', volume = ''shared'', branch = ''trunk''\<rparr>" "''pool1''"]
  by (simp add: listVolumes_entry_def)

section \<open>Engine commands\<close>

lemma zfs_trace: "trace (snd (zfs arguments w)) = trace w @ [''zfs'' # arguments]"
  by (simp add: zfs_def Let_def)

lemma zfs_ok:
  "engine w (trace w) (''zfs'' # arguments) = 0 \<Longrightarrow>
     zfs arguments w = (Inr (), w\<lparr>trace := trace w @ [''zfs'' # arguments]\<rparr>)"
  by (simp add: zfs_def Let_def)

lemma zfs_fail:
  "engine w (trace w) (''zfs'' # arguments) \<noteq> 0 \<Longrightarrow>
     zfs arguments w
       = (Inl (CalledProcessError (engine w (trace w) (''zfs'' # arguments)) (''zfs'' # arguments)),
          w\<lparr>trace := trace w @ [''zfs'' # arguments]\<rparr>)"
  by (simp add: zfs_def Let_def)

text \<open>
  C6. Creating a volume runs exactly one command, whatever its outcome: the create of
  the flat name pool/owner.volume.trunk, owner being the instance's own name. For an
  instance built by the constructor the owner is the pool name, and with the pool
  pool1 the volume db is created as pool1/pool1.db.trunk.
\<close>

theorem createVolume_one_create:
  "trace (snd (createVolume self volumeName w))
     = trace w @ [[''zfs'', ''create'',
                   poolName self @ ''/'' @ self_flockerName self @ ''.'' @ volumeName @ ''.trunk'']]
   \<and> trace (snd (createVolume (Flocker_init pool root) volumeName w))
     = trace w @ [[''zfs'', ''create'', pool @ ''/'' @ pool @ ''.'' @ volumeName @ ''.trunk'']]
   \<and> trace (snd (createVolume (Flocker_init ''pool1'' root) ''db''
                    \<lparr>trace = [], engine = eng, fs = dirs\<rparr>))
     = [[''zfs'', ''create'', ''pool1/pool1.db.trunk'']]"
  by (simp add: createVolume_def Let_def zfs_trace datasetName_def Flocker_init_def)

text \<open>
  C3, as stated: for every pair of identifiers of the same volume, branching runs
  exactly two commands, the snapshot and then the clone. The code does not when the
  snapshot command fails: with an engine that answers every command with the exit
  status 2, branching (pool1, db, feature) off (pool1, db, trunk) raises the
  snapshot's \<open>CalledProcessError\<close> and the snapshot is the only command run; the
  clone is never issued.
\<close>

theorem branchOffBranch_snapshot_fails:
  "volume \<lparr>flockerName = ''pool1'', volume = ''db'', branch = ''feature''\<rparr>
     = volume \<lparr>flockerName = ''pool1'', volume = ''db'', branch = ''trunk''\<rparr>
   \<and> branchOffBranch (Flocker_init ''pool1'' ''/pool1'')
         \<lparr>flockerName = ''pool1'', volume = ''db'', branch = ''feature''\<rparr>
         \<lparr>flockerName = ''pool1'', volume = ''db'', branch = ''trunk''\<rparr>
         \<lparr>trace = [], engine = (\<lambda>h c. 2), fs = Map.empty\<rparr>
     = (Inl (CalledProcessError 2 [''zfs'', ''snapshot'', ''pool1/pool1.db.trunk@feature'']),
        \<lparr>trace = [[''zfs'', ''snapshot'', ''pool1/pool1.db.trunk@feature'']],
         engine = (\<lambda>h c. 2), fs = Map.empty\<rparr>)
   \<and> trace (snd (branchOffBranch (Flocker_init ''pool1'' ''/pool1'')
         \<lparr>flockerName = ''pool1'', volume = ''db'', branch = ''feature''\<rparr>
         \<lparr>flockerName = ''pool1'', volume = ''db'', branch = ''trunk''\<rparr>
         \<lparr>trace = [], engine = (\<lambda>h c. 2), fs = Map.empty\<rparr>))
     \<noteq> [[''zfs'', ''snapshot'', ''pool1/pool1.db.trunk@feature''],
        [''zfs'', ''clone'', ''pool1/pool1.db.trunk@feature'', ''pool1/pool1.db.feature'']]"
  by (simp add: branchOffBranch_def Let_def zfs_def datasetName_def Flocker_init_def)

text \<open>
  C3, amended: when the two identifiers name the same volume and the snapshot command
  succeeds, branching runs exactly two commands, in this order: the snapshot of the
  source branch's dataset under the new branch's name, then the clone of that snapshot
  to the new branch's dataset.
\<close>

theorem branchOffBranch_protocol:
  assumes "volume newBranch = volume fromBranch"
      and "engine w (trace w)
             [''zfs'', ''snapshot'',
              datasetName fromBranch (poolName self) @ ''@'' @ branch newBranch] = 0"
  shows "trace (snd (branchOffBranch self newBranch fromBranch w))
           = trace w @
             [[''zfs'', ''snapshot'',
               datasetName fromBranch (poolName self) @ ''@'' @ branch newBranch],
              [''zfs'', ''clone'',
               datasetName fromBranch (poolName self) @ ''@'' @ branch newBranch,
               datasetName newBranch (poolName self)]]"
  using assms by (simp add: branchOffBranch_def Let_def zfs_ok zfs_trace)

theorem branchOffBranch_protocol_witness:
  "volume \<lparr>flockerName = ''pool1'', volume = ''db'', branch = ''feature''\<rparr>
     = volume \<lparr>flockerName = ''pool1'', volume = ''db'', branch = ''trunk''\<rparr>
   \<and> trace (snd (branchOffBranch (Flocker_init ''pool1'' ''/pool1'')
         \<lparr>flockerName = ''pool1'', volume = ''db'', branch = ''feature''\<rparr>
         \<lparr>flockerName = ''pool1'', volume = ''db'', branch = ''trunk''\<rparr>
         \<lparr>trace = [], engine = (\<lambda>h c. 0), fs = Map.empty\<rparr>))
     = [[''zfs'', ''snapshot'', ''pool1/pool1.db.trunk@feature''],
        [''zfs'', ''clone'', ''pool1/pool1.db.trunk@feature'', ''pool1/pool1.db.feature'']]"
  using branchOffBranch_protocol [of
         "\<lparr>flockerName = ''pool1'', volume = ''db'', branch = ''feature''\<rparr>"
         "\<lparr>flockerName = ''pool1'', volume = ''db'', branch = ''trunk''\<rparr>"
         "\<lparr>trace = [], engine = (\<lambda>h c. 0), fs = Map.empty\<rparr>"
         "Flocker_init ''pool1'' ''/pool1''"]
  by (simp add: datasetName_def Flocker_init_def)

text \<open>
  C4. When the two identifiers name different volumes, whatever their owners and
  branches, branching fails with \<open>ValueError\<close> (the specification's
  CrossVolumeBranchError) and the world is untouched: no command has been run.
\<close>

theorem branchOffBranch_cross_volume:
  assumes "volume newBranch \<noteq> volume fromBranch"
  shows "branchOffBranch self newBranch fromBranch w = (Inl ValueError, w)"
  using assms by (simp add: branchOffBranch_def)

theorem branchOffBranch_cross_volume_witness:
  "volume \<lparr>flockerName = ''pool1'', volume = ''web'', branch = ''feature''\<rparr>
     \<noteq> volume \<lparr>flockerName = ''pool1'', volume = ''db'', branch = ''trunk''\<rparr>
   \<and> branchOffBranch (Flocker_init ''pool1'' ''/pool1'')
         \<lparr>flockerName = ''pool1'', volume = ''web'', branch = ''feature''\<rparr>
         \<lparr>flockerName = ''pool1'', volume = ''db'', branch = ''trunk''\<rparr>
         \<lparr>trace = [], engine = (\<lambda>h c. 0), fs = Map.empty\<rparr>
     = (Inl ValueError, \<lparr>trace = [], engine = (\<lambda>h c. 0), fs = Map.empty\<rparr>)"
  using branchOffBranch_cross_volume [of
         "\<lparr>flockerName = ''pool1'', volume = ''web'', branch = ''feature''\<rparr>"
         "\<lparr>flockerName = ''pool1'', volume = ''db'', branch = ''trunk''\<rparr>"
         "Flocker_init ''pool1'' ''/pool1''"
         "\<lparr>trace = [], engine = (\<lambda>h c. 0), fs = Map.empty\<rparr>"]
  by simp

text \<open>
  C9. When the two identifiers name the same volume, the snapshot command succeeds and
  the clone command fails, branching ends with the clone's \<open>CalledProcessError\<close>
  (the specification's EngineOperationFailed), and the commands run are exactly the
  snapshot and the clone: nothing is run afterwards, so the snapshot is not deleted.
\<close>

theorem branchOffBranch_no_rollback:
  assumes "volume newBranch = volume fromBranch"
      and "engine w (trace w)
             [''zfs'', ''snapshot'',
              datasetName fromBranch (poolName self) @ ''@'' @ branch newBranch] = 0"
      and "engine w
             (trace w @ [[''zfs'', ''snapshot'',
                          datasetName fromBranch (poolName self) @ ''@'' @ branch newBranch]])
             [''zfs'', ''clone'',
              datasetName fromBranch (poolName self) @ ''@'' @ branch newBranch,
              datasetName newBranch (poolName self)] = rc"
      and "rc \<noteq> 0"
  shows "branchOffBranch self newBranch fromBranch w
           = (Inl (CalledProcessError rc
                     [''zfs'', ''clone'',
                      datasetName fromBranch (poolName self) @ ''@'' @ branch newBranch,
                      datasetName newBranch (poolName self)]),
              w\<lparr>trace := trace w @
                 [[''zfs'', ''snapshot'',
                   datasetName fromBranch (poolName self) @ ''@'' @ branch newBranch],
                  [''zfs'', ''clone'',
                   datasetName fromBranch (poolName self) @ ''@'' @ branch newBranch,
                   datasetName newBranch (poolName self)]]\<rparr>)"
  using assms by (simp add: branchOffBranch_def Let_def zfs_ok zfs_fail)

theorem branchOffBranch_no_rollback_witness:
  "branchOffBranch (Flocker_init ''pool1'' ''/pool1'')
      \<lparr>flockerName = ''pool1'', volume = ''db'', branch = ''feature''\<rparr>
      \<lparr>flockerName = ''pool1'', volume = ''db'', branch = ''trunk''\<rparr>
      \<lparr>trace = [], engine = (\<lambda>h c. if h = [] then 0 else 1), fs = Map.empty\<rparr>
     = (Inl (CalledProcessError 1
               [''zfs'', ''clone'', ''pool1/pool1.db.trunk@feature'', ''pool1/pool1.db.feature'']),
        \<lparr>trace = [[''zfs'', ''snapshot'', ''pool1/pool1.db.trunk@feature''],
                  [''zfs'', ''clone'', ''pool1/pool1.db.trunk@feature'', ''pool1/pool1.db.feature'']],
         engine = (\<lambda>h c. if h = [] then 0 else 1), fs = Map.empty\<rparr>)"
  using branchOffBranch_no_rollback [where
          self = "Flocker_init ''pool1'' ''/pool1''"
          and newBranch = "\<lparr>flockerName = ''pool1'', volume = ''db'', branch = ''feature''\<rparr>"
          and fromBranch = "\<lparr>flockerName = ''pool1'', volume = ''db'', branch = ''trunk''\<rparr>"
          and w = "\<lparr>trace = [], engine = (\<lambda>h c. if h = [] then 0 else 1), fs = Map.empty\<rparr>"
          and rc = 1]
  by (simp add: datasetName_def Flocker_init_def)

section \<open>Listing volumes\<close>

lemma length_three: "length xs = 3 \<Longrightarrow> \<exists>a b c. xs = [a, b, c]"
  by (auto simp: numeral_3_eq_3 length_Suc_conv)

lemma FlockerBranch_new_error: "FlockerBranch_new parts = Inl e \<Longrightarrow> e = TypeError"
  by (induction parts rule: FlockerBranch_new.induct) auto

lemma fromDatasetName_error: "fromDatasetName s = Inl e \<Longrightarrow> e = TypeError"
  unfolding fromDatasetName_def by (rule FlockerBranch_new_error)

text \<open>
  The loop on a listing all of whose dotted entries have three tokens: the entries
  without a dot are dropped, the others are rendered in the listing's order and added
  to what was already collected.
\<close>

lemma listVolumes_loop_wellformed:
  assumes "\<forall>e\<in>set entries. CHR ''.'' \<in> set e \<longrightarrow> length (split_bytes (CHR ''.'') e) = 3"
  shows "listVolumes_loop me entries result
           = Inr (result @ map (\<lambda>e. case split_bytes (CHR ''.'') e of
                                      [owner, v, b] \<Rightarrow>
                                        if owner = me then v @ ''/'' @ b
                                        else owner @ ''/'' @ v @ ''/'' @ b
                                    | _ \<Rightarrow> [])
                               (filter (\<lambda>e. CHR ''.'' \<in> set e) entries))"
  using assms
proof (induction entries arbitrary: result)
  case Nil
  then show ?case by simp
next
  case (Cons e entries)
  show ?case
  proof (cases "CHR ''.'' \<in> set e")
    case False
    then show ?thesis using Cons by simp
  next
    case True
    then have "length (split_bytes (CHR ''.'') e) = 3"
      using Cons.prems by simp
    then obtain a b c where s: "split_bytes (CHR ''.'') e = [a, b, c]"
      using length_three by blast
    have "listVolumes_loop me (e # entries) result
            = listVolumes_loop me entries
                (result @ [listVolumes_entry me \<lparr>flockerName = a, volume = b, branch = c\<rparr>])"
      using True s by (simp add: fromDatasetName_def)
    also have "\<dots> = Inr ((result @ [listVolumes_entry me \<lparr>flockerName = a, volume = b, branch = c\<rparr>])
                 @ map (\<lambda>e. case split_bytes (CHR ''.'') e of
                                      [owner, v, b] \<Rightarrow>
                                        if owner = me then v @ ''/'' @ b
                                        else owner @ ''/'' @ v @ ''/'' @ b
                                    | _ \<Rightarrow> [])
                               (filter (\<lambda>e. CHR ''.'' \<in> set e) entries))"
      using Cons.prems by (intro Cons.IH) simp
    finally show ?thesis
      using True s by (simp add: listVolumes_entry_def)
  qed
qed

text \<open>
  The loop on a listing holding a dotted entry that does not have three tokens: the
  constructor's error leaves the loop, whatever was collected.
\<close>

lemma listVolumes_loop_malformed:
  assumes "e \<in> set entries"
      and "CHR ''.'' \<in> set e"
      and "length (split_bytes (CHR ''.'') e) \<noteq> 3"
  shows "listVolumes_loop me entries result = Inl TypeError"
  using assms
proof (induction entries arbitrary: result)
  case Nil
  then show ?case by simp
next
  case (Cons x entries)
  show ?case
  proof (cases "x = e")
    case True
    then show ?thesis
      using Cons.prems by (simp add: fromDatasetName_def FlockerBranch_new_fail)
  next
    case False
    then have "e \<in> set entries"
      using Cons.prems by simp
    then have ih: "\<And>r. listVolumes_loop me entries r = Inl TypeError"
      using Cons.IH Cons.prems by blast
    show ?thesis
      by (auto simp: ih split: sum.splits dest: fromDatasetName_error)
  qed
qed

text \<open>
  C5, as stated: for every listing, the entries without a dot are skipped and every
  entry of three tokens is rendered. The code does not when the listing also holds a
  dotted entry that does not have three tokens: for the listing of .hidden and
  pool1.db.trunk, and for the listing of pool1.db.trunk, junkfile and .hidden, the
  constructor's \<open>TypeError\<close> is raised and nothing is returned, so the entry
  pool1.db.trunk is not rendered as db/trunk.
\<close>

theorem listVolumes_hidden_entry:
  "split_bytes (CHR ''.'') ''pool1.db.trunk'' = [''pool1'', ''db'', ''trunk'']
   \<and> listVolumes (Flocker_init ''pool1'' ''/pool1'')
        \<lparr>trace = [], engine = (\<lambda>h c. 0),
         fs = [''/pool1'' \<mapsto> [''.hidden'', ''pool1.db.trunk'']]\<rparr>
     = Inl TypeError
   \<and> listVolumes (Flocker_init ''pool1'' ''/pool1'')
        \<lparr>trace = [], engine = (\<lambda>h c. 0),
         fs = [''/pool1'' \<mapsto> [''pool1.db.trunk'', ''junkfile'', ''.hidden'']]\<rparr>
     = Inl TypeError"
  by (simp add: listVolumes_def Flocker_init_def fromDatasetName_def listVolumes_entry_def)

text \<open>
  C5, amended: for every listing of the mount root in which every entry with a dot
  splits into exactly three tokens, the result is, in the listing's order, one string
  for each entry with a dot and none for the entries without: the short form
  volume/branch when the entry's owner is the local owner, the long form
  owner/volume/branch otherwise.
\<close>

theorem listVolumes_rendering:
  assumes "fs w (mountRoot self) = Some entries"
      and "\<forall>e\<in>set entries. CHR ''.'' \<in> set e \<longrightarrow> length (split_bytes (CHR ''.'') e) = 3"
  shows "listVolumes self w
           = Inr (map (\<lambda>e. case split_bytes (CHR ''.'') e of
                             [owner, v, b] \<Rightarrow>
                               if owner = self_flockerName self then v @ ''/'' @ b
                               else owner @ ''/'' @ v @ ''/'' @ b
                           | _ \<Rightarrow> [])
                      (filter (\<lambda>e. CHR ''.'' \<in> set e) entries))"
  using assms by (simp add: listVolumes_def listVolumes_loop_wellformed)

theorem listVolumes_rendering_witness:
  "listVolumes (Flocker_init ''pool1'' ''/pool1'')
      \<lparr>trace = [], engine = (\<lambda>h c. 0), fs = [''/pool1'' \<mapsto> [''pool1.db.trunk'', ''junkfile'']]\<rparr>
     = Inr [''db/trunk'']
   \<and> listVolumes (Flocker_init ''pool1'' ''/pool1'')
      \<lparr>trace = [], engine = (\<lambda>h c. 0), fs = [''/pool1'' \<mapsto> [''pool2.shared.trunk'']]\<rparr>
     = Inr [''pool2/shared/trunk'']"
  using listVolumes_rendering [of
          "\<lparr>trace = [], engine = (\<lambda>h c. 0),
            fs = [''/pool1'' \<mapsto> [''pool1.db.trunk'', ''junkfile'']]\<rparr>"
          "Flocker_init ''pool1'' ''/pool1''" "[''pool1.db.trunk'', ''junkfile'']"]
        listVolumes_rendering [of
          "\<lparr>trace = [], engine = (\<lambda>h c. 0), fs = [''/pool1'' \<mapsto> [''pool2.shared.trunk'']]\<rparr>"
          "Flocker_init ''pool1'' ''/pool1''" "[''pool2.shared.trunk'']"]
  by (simp add: Flocker_init_def)

text \<open>
  C10. When the listing of the mount root holds an entry that has a dot but does not
  split into exactly three tokens, listing the volumes fails with the constructor's
  \<open>TypeError\<close>: the entry is not skipped and no list is returned, wherever the
  entry stands in the listing.
\<close>

theorem listVolumes_malformed_entry:
  assumes "fs w (mountRoot self) = Some entries"
      and "e \<in> set entries"
      and "CHR ''.'' \<in> set e"
      and "length (split_bytes (CHR ''.'') e) \<noteq> 3"
  shows "listVolumes self w = Inl TypeError"
  using assms by (simp add: listVolumes_def listVolumes_loop_malformed)

theorem listVolumes_malformed_entry_witness:
  "listVolumes (Flocker_init ''pool1'' ''/pool1'')
      \<lparr>trace = [], engine = (\<lambda>h c. 0),
       fs = [''/pool1'' \<mapsto> [''pool1.db.trunk'', ''a.b'', ''pool2.shared.trunk'']]\<rparr>
     = Inl TypeError
   \<and> listVolumes (Flocker_init ''pool1'' ''/pool1'')
      \<lparr>trace = [], engine = (\<lambda>h c. 0),
       fs = [''/pool1'' \<mapsto> [''a.b.c.d'', ''pool1.db.trunk'']]\<rparr>
     = Inl TypeError"
  using listVolumes_malformed_entry [of
          "\<lparr>trace = [], engine = (\<lambda>h c. 0),
            fs = [''/pool1'' \<mapsto> [''pool1.db.trunk'', ''a.b'', ''pool2.shared.trunk'']]\<rparr>"
          "Flocker_init ''pool1'' ''/pool1''"
          "[''pool1.db.trunk'', ''a.b'', ''pool2.shared.trunk'']" "''a.b''"]
        listVolumes_malformed_entry [of
          "\<lparr>trace = [], engine = (\<lambda>h c. 0),
            fs = [''/pool1'' \<mapsto> [''a.b.c.d'', ''pool1.db.trunk'']]\<rparr>"
          "Flocker_init ''pool1'' ''/pool1''"
          "[''a.b.c.d'', ''pool1.db.trunk'']" "''a.b.c.d''"]
  by (simp add: Flocker_init_def)

end
